theory Spec2Isabelle
  imports Complex_Main "HOL-Library.Sublist" "HOL-Library.Word"
begin

section \<open>Strings\<close>

text \<open>
  A JavaScript string is a sequence of UTF-16 code units, and \<open>includes\<close>, \<open>substring\<close>,
  \<open>trim\<close> and the tag pattern all work on code units. \<open>js\<close> gives the code units of a
  literal written in ASCII.
\<close>

type_synonym jsstring = "16 word list"

definition js :: "string \<Rightarrow> jsstring" where
  "js s = map of_char s"

text \<open>
  \<open>String.prototype.toLowerCase\<close> is the engine's Unicode case mapping. Its tables are
  not part of the repository, so every function below that calls it takes it as an
  argument named \<open>toLowerCase\<close>, and nothing is assumed about that argument unless a
  theorem says so. On text of ASCII characters only the built-in maps the letters A to Z
  to a to z and leaves the rest alone: \<open>asciiLowerCase\<close> is that function, and stands for
  \<open>toLowerCase\<close> in the examples, whose strings are ASCII.
\<close>

definition asciiLowerCase :: "jsstring \<Rightarrow> jsstring" where
  "asciiLowerCase s = map (\<lambda>c. if 0x41 \<le> c \<and> c \<le> 0x5A then c + 0x20 else c) s"

text \<open>
  The code units \<open>trim\<close> removes: the white space and line terminators of the language
  (tab, line feed, vertical tab, form feed, carriage return, space, no-break space, the
  space separators U+1680, U+2000 to U+200A, U+202F, U+205F, U+3000, the line and
  paragraph separators U+2028 and U+2029, and the byte order mark U+FEFF).
\<close>

definition isWhiteSpace :: "16 word \<Rightarrow> bool" where
  "isWhiteSpace c \<longleftrightarrow>
     c \<in> set [0x0009, 0x000A, 0x000B, 0x000C, 0x000D, 0x0020, 0x00A0, 0x1680,
              0x2000, 0x2001, 0x2002, 0x2003, 0x2004, 0x2005, 0x2006, 0x2007,
              0x2008, 0x2009, 0x200A, 0x2028, 0x2029, 0x202F, 0x205F, 0x3000, 0xFEFF]"

definition trim :: "jsstring \<Rightarrow> jsstring" where
  "trim s = rev (dropWhile isWhiteSpace (rev (dropWhile isWhiteSpace s)))"

text \<open>\<open>s.includes(t)\<close>: \<open>t\<close> occurs in \<open>s\<close> as a contiguous substring.\<close>

fun includes_str :: "'a list \<Rightarrow> 'a list \<Rightarrow> bool" where
  "includes_str [] t = (t = [])"
| "includes_str (c # cs) t = (prefix t (c # cs) \<or> includes_str cs t)"

text \<open>\<open>xs.join(sep)\<close>.\<close>

fun joinWith :: "'a list list \<Rightarrow> 'a list \<Rightarrow> 'a list" where
  "joinWith [] sep = []"
| "joinWith [x] sep = x"
| "joinWith (x # y # ys) sep = x @ sep @ joinWith (y # ys) sep"

text \<open>
  \<open>s.replace(/<[^>]*>/g, "")\<close>: scanning from the left, a \<open><\<close> (code unit 60) that has a
  \<open>>\<close> (code unit 62) somewhere after it is removed together with everything up to and
  including the first such \<open>>\<close>; a \<open><\<close> with no \<open>>\<close> after it matches nothing and stays.
\<close>

function stripTags :: "jsstring \<Rightarrow> jsstring" where
  "stripTags [] = []"
| "stripTags (c # cs) =
     (if c = 0x3C \<and> 0x3E \<in> set cs
      then stripTags (tl (dropWhile (\<lambda>d. d \<noteq> 0x3E) cs))
      else c # stripTags cs)"
  by pat_completeness auto
termination
proof (relation "measure length")
  show "wf (measure (length :: jsstring \<Rightarrow> nat))" by simp
next
  fix c :: "16 word" and cs :: jsstring
  have "length (tl (dropWhile (\<lambda>d. d \<noteq> 0x3E) cs)) \<le> length cs"
    using length_dropWhile_le [of "\<lambda>d. d \<noteq> 0x3E" cs] by simp
  then show "(tl (dropWhile (\<lambda>d. d \<noteq> 0x3E) cs), c # cs) \<in> measure length"
    by simp
next
  fix c :: "16 word" and cs :: jsstring
  show "(cs, c # cs) \<in> measure length" by simp
qed

section \<open>The note store\<close>

text \<open>
  The interface \<open>Note\<close> declares \<open>title\<close>, \<open>content\<close> and \<open>chatHistory\<close> as always present,
  but \<open>updateNote\<close> spreads its \<open>data\<close> argument over the note, and a \<open>Partial\<close> may carry a
  key whose value is \<open>undefined\<close>. So a stored note can hold \<open>undefined\<close> in these three
  fields: \<open>None\<close> below.
\<close>

datatype Sender = User | Ai

record Message =
  msg_id :: jsstring
  msg_content :: jsstring
  sender :: Sender
  timestamp :: int

record Note =
  note_id :: jsstring
  title :: "jsstring option"
  content :: "jsstring option"
  chatHistory :: "Message list option"
  lastUpdated :: int

record NotesState =
  "notes" :: "Note list"
  activeNoteId :: "jsstring option"

text \<open>Reading a property of \<open>undefined\<close> raises a \<open>TypeError\<close>.\<close>

datatype error = TypeError

text \<open>
  \<open>generateId()\<close> draws from \<open>Math.random()\<close> and \<open>Date.now()\<close> reads the clock. Every
  call of either is a parameter of the operation that makes it: \<open>gid\<close> is the string the
  generator returned, \<open>now\<close> the clock value. Nothing is assumed about them; two draws
  may return the same string.
\<close>

definition createDefaultNotes :: "jsstring \<Rightarrow> int \<Rightarrow> jsstring \<Rightarrow> int \<Rightarrow> Note list" where
  "createDefaultNotes gid1 now1 gid2 now2 =
     [\<lparr>note_id = gid1,
       title = Some (js ''Welcome to Notes Editor''),
       content = Some (js ''<h1>Welcome to the Notes Editor</h1><p>This is your first note. You can edit it or create a new one.</p><ul><li>Click the edit button to start editing</li><li>Use the AI button to chat with AI</li></ul>''),
       chatHistory = Some [],
       lastUpdated = now1\<rparr>,
      \<lparr>note_id = gid2,
       title = Some (js ''Getting Started with TipTap''),
       content = Some (js ''<h1>TipTap Editor</h1><p>This editor supports rich text formatting:</p><h2>Headings</h2><h3>Subheadings</h3><ul><li>Bullet lists</li><li>With multiple items</li></ul><ol><li>Numbered lists</li><li>Work too!</li></ol>''),
       chatHistory = Some [],
       lastUpdated = now2 - 1000 * 60 * 5\<rparr>]"

text \<open>
  The seeded state. The source evaluates \<open>createDefaultNotes()\<close> once for \<open>notes\<close> and a
  second time for \<open>activeNoteId\<close>, so the generator is drawn four times.
\<close>

definition initialState ::
  "jsstring \<Rightarrow> int \<Rightarrow> jsstring \<Rightarrow> int \<Rightarrow> jsstring \<Rightarrow> int \<Rightarrow> jsstring \<Rightarrow> int
     \<Rightarrow> NotesState" where
  "initialState gid1 now1 gid2 now2 gid3 now3 gid4 now4 =
     \<lparr>notes = createDefaultNotes gid1 now1 gid2 now2,
      activeNoteId = Some (note_id (createDefaultNotes gid3 now3 gid4 now4 ! 0))\<rparr>"

subsection \<open>Selectors\<close>

text \<open>
  A selector reads the state with \<open>get()\<close> and returns a value; it is modelled as a
  function to the value and the state after the call. \<open>note.id === activeNoteId\<close>
  compares a string with a string or \<open>null\<close>.
\<close>

definition getActiveNote :: "NotesState \<Rightarrow> Note option \<times> NotesState" where
  "getActiveNote state =
     (find (\<lambda>note. Some (note_id note) = activeNoteId state) (notes state), state)"

definition getNoteById :: "jsstring \<Rightarrow> NotesState \<Rightarrow> Note option \<times> NotesState" where
  "getNoteById i state = (find (\<lambda>note. note_id note = i) (notes state), state)"




definition getTotalNoteCount :: "NotesState \<Rightarrow> nat \<times> NotesState" where
  "getTotalNoteCount state = (length (notes state), state)"

subsection \<open>Actions\<close>

text \<open>\<open>title || "Untitled Note"\<close>: an omitted title and the empty string are falsy.\<close>

definition addNote ::
  "jsstring \<Rightarrow> int \<Rightarrow> jsstring option \<Rightarrow> NotesState \<Rightarrow> jsstring \<times> NotesState" where
  "addNote gid now title_arg state =
     (let newNote =
        \<lparr>note_id = gid,
         title = Some (case title_arg of
                    None \<Rightarrow> js ''Untitled Note''
                  | Some t \<Rightarrow> if t = [] then js ''Untitled Note'' else t),
         content = Some (js ''<p></p>''),
         chatHistory = Some [],
         lastUpdated = now\<rparr>
      in (note_id newNote,
          state\<lparr>notes := notes state @ [newNote], activeNoteId := Some (note_id newNote)\<rparr>))"

text \<open>\<open>findIndex\<close> returns the first index whose element satisfies the test, \<open>-1\<close> if none.\<close>

fun findIndex :: "('a \<Rightarrow> bool) \<Rightarrow> 'a list \<Rightarrow> nat option" where
  "findIndex P [] = None"
| "findIndex P (x # xs) = (if P x then Some 0 else map_option Suc (findIndex P xs))"

text \<open>
  The \<open>data\<close> argument of \<open>updateNote\<close> is a \<open>Partial<Omit<Note, "id">>\<close>: each key is
  absent, present with the value \<open>undefined\<close>, or present with a value.
\<close>

datatype 'a field = Absent | Undefined | Value 'a

record NoteData =
  d_title :: "jsstring field"
  d_content :: "jsstring field"
  d_chatHistory :: "Message list field"
  d_lastUpdated :: "int field"

text \<open>
  The test guarding the update. \<open>data.title && data.title !== note.title\<close> is falsy for an
  absent, an undefined and an empty title; \<open>data.chatHistory\<close> is truthy for every array.
\<close>

definition hasChanged :: "NoteData \<Rightarrow> Note \<Rightarrow> bool" where
  "hasChanged data note \<longleftrightarrow>
     (case d_title data of Value t \<Rightarrow> t \<noteq> [] \<and> Some t \<noteq> title note | _ \<Rightarrow> False) \<or>
     (case d_content data of Value c \<Rightarrow> c \<noteq> [] \<and> Some c \<noteq> content note | _ \<Rightarrow> False) \<or>
     (case d_chatHistory data of Value h \<Rightarrow> True | _ \<Rightarrow> False)"

text \<open>
  One field of \<open>{...note, ...data}\<close>: an absent key keeps the note's value, a present key
  overwrites it, with \<open>undefined\<close> too.
\<close>

fun spreadField :: "'a option \<Rightarrow> 'a field \<Rightarrow> 'a option" where
  "spreadField old Absent = old"
| "spreadField old Undefined = None"
| "spreadField old (Value v) = Some v"

text \<open>\<open>{...note, ...data, lastUpdated: Date.now()}\<close>.\<close>

definition mergeNote :: "Note \<Rightarrow> NoteData \<Rightarrow> int \<Rightarrow> Note" where
  "mergeNote note data now =
     note\<lparr>title := spreadField (title note) (d_title data),
          content := spreadField (content note) (d_content data),
          chatHistory := spreadField (chatHistory note) (d_chatHistory data),
          lastUpdated := now\<rparr>"

definition updateNote :: "int \<Rightarrow> jsstring \<Rightarrow> NoteData \<Rightarrow> NotesState \<Rightarrow> NotesState" where
  "updateNote now i data state =
     (case findIndex (\<lambda>note. note_id note = i) (notes state) of
        None \<Rightarrow> state
      | Some noteIndex \<Rightarrow>
          (let note = notes state ! noteIndex
           in if hasChanged data note
              then state\<lparr>notes := (notes state)[noteIndex := mergeNote note data now]\<rparr>
              else state))"

definition deleteNote :: "jsstring \<Rightarrow> NotesState \<Rightarrow> NotesState" where
  "deleteNote i state =
     (let active = activeNoteId state;
          remaining = filter (\<lambda>note. note_id note \<noteq> i) (notes state)
      in if active = Some i \<and> length remaining > 0
         then \<lparr>notes = remaining, activeNoteId = Some (note_id (remaining ! 0))\<rparr>
         else if length remaining = 0
         then \<lparr>notes = remaining, activeNoteId = None\<rparr>
         else \<lparr>notes = remaining, activeNoteId = active\<rparr>)"

definition setActiveNote :: "jsstring \<Rightarrow> NotesState \<Rightarrow> NotesState" where
  "setActiveNote i state = state\<lparr>activeNoteId := Some i\<rparr>"

text \<open>
  \<open>addMessage\<close> reads the clock twice: once for the message's timestamp, once for the
  note's \<open>lastUpdated\<close>. \<open>chatHistory.push\<close> raises a \<open>TypeError\<close> when the note's chat
  history is \<open>undefined\<close>; the state is then left as it was.
\<close>

definition addMessage ::
  "jsstring \<Rightarrow> int \<Rightarrow> int \<Rightarrow> jsstring \<Rightarrow> jsstring \<Rightarrow> Sender \<Rightarrow> NotesState
     \<Rightarrow> error + NotesState" where
  "addMessage gid now1 now2 noteId text who state =
     (let newMessage =
        \<lparr>msg_id = gid, msg_content = text, sender = who, timestamp = now1\<rparr>
      in case findIndex (\<lambda>note. note_id note = noteId) (notes state) of
           None \<Rightarrow> Inr state
         | Some noteIndex \<Rightarrow>
             (let note = notes state ! noteIndex
              in case chatHistory note of
                   None \<Rightarrow> Inl TypeError
                 | Some history \<Rightarrow>
                     Inr (state\<lparr>notes := (notes state)
                       [noteIndex := note\<lparr>chatHistory := Some (history @ [newMessage]),
                                           lastUpdated := now2\<rparr>]\<rparr>)))"

subsection \<open>Sequences of calls\<close>

datatype Call = AddNote jsstring int "jsstring option" | DeleteNote jsstring

fun step :: "Call \<Rightarrow> NotesState \<Rightarrow> NotesState" where
  "step (AddNote gid now title_arg) state = snd (addNote gid now title_arg state)"
| "step (DeleteNote i) state = deleteNote i state"

fun run :: "Call list \<Rightarrow> NotesState \<Rightarrow> NotesState" where
  "run [] state = state"
| "run (c # cs) state = run cs (step c state)"

text \<open>
  The invariant on the selection: \<open>activeNoteId\<close> is \<open>null\<close> and there are no notes, or it
  is the id of a note in \<open>notes\<close>.
\<close>

definition activeValid :: "NotesState \<Rightarrow> bool" where
  "activeValid state \<longleftrightarrow>
     (case activeNoteId state of
        None \<Rightarrow> notes state = []
      | Some a \<Rightarrow> a \<in> set (map note_id (notes state)))"

text \<open>
  A note with the given id, title and content (written in ASCII), used in the examples
  below.
\<close>

definition exNote :: "string \<Rightarrow> string \<Rightarrow> string \<Rightarrow> Note" where
  "exNote i t c =
     \<lparr>note_id = js i, title = Some (js t), content = Some (js c),
      chatHistory = Some [], lastUpdated = 1\<rparr>"



section \<open>The response matcher\<close>

text \<open>The bullet character of the replies, U+2022, one code unit.\<close>

definition bullet :: jsstring where
  "bullet = [0x2022]"

definition NOTE_TOPICS :: "jsstring list" where
  "NOTE_TOPICS = [
    js ''formatting'',
    js ''headings'',
    js ''bold'',
    js ''italic'',
    js ''lists'',
    js ''bullet points'',
    js ''markdown'',
    js ''save'',
    js ''autosave'',
    js ''keyboard shortcuts'',
    js ''dark mode'',
    js ''images'',
    js ''links'',
    js ''organize'',
    js ''delete'']"

definition WRITING_TIPS :: "jsstring list" where
  "WRITING_TIPS = [
    js ''Use headings to create a clear structure in your notes'',
    js ''Break down complex ideas into bullet points for easier comprehension'',
    js ''Highlight key concepts or terms using bold or italic formatting'',
    js ''Use numbered lists for step-by-step processes or sequences'',
    js ''Keep paragraphs short and focused on a single idea'',
    js ''Add links to external resources for deeper research'',
    js ''Use consistent formatting for similar types of information'',
    js ''Include images or diagrams to visualize complex concepts'',
    js ''Use markdown for code snippets or technical content'',
    js ''Review and reorganize your notes periodically for better clarity'']"

record Technique =
  name :: jsstring
  description :: jsstring

definition PRODUCTIVITY_TECHNIQUES :: "Technique list" where
  "PRODUCTIVITY_TECHNIQUES = [
    \<lparr>name = js ''Pomodoro Technique'',
     description = js ''Work for 25 minutes, then take a 5-minute break. After 4 cycles, take a longer 15-30 minute break.''\<rparr>,
    \<lparr>name = js ''Cornell Note-Taking Method'',
     description = js ''Divide your page into sections: notes, cues, and summary. Take notes during class, add cues later, and write a summary at the bottom.''\<rparr>,
    \<lparr>name = js ''Mind Mapping'',
     description = js ''Create visual diagrams to connect related concepts. Start with a central idea and branch out with related thoughts.''\<rparr>,
    \<lparr>name = js ''Spaced Repetition'',
     description = js ''Review material at increasing intervals to enhance long-term retention.''\<rparr>,
    \<lparr>name = js ''Feynman Technique'',
     description = js ''Explain a concept in simple terms as if teaching it to someone else. This helps identify gaps in your understanding.''\<rparr>]"

subsection \<open>The fixed replies\<close>

definition markdownNotice :: jsstring where
  "markdownNotice = js ''I noticed you mentioned markdown. This editor supports Markdown view which you can toggle with Ctrl+M. Would you like to know more about using markdown in your notes?''"

definition shortcutsNotice :: jsstring where
  "shortcutsNotice = js ''I noticed you mentioned keyboard shortcuts. This editor supports various shortcuts like Ctrl+B for bold, Ctrl+I for italic, and Ctrl+M for markdown view. Would you like to know more?''"

definition greetingReply :: jsstring where
  "greetingReply = js ''Hello! How can I assist you with your notes today?''"

definition gratitudeReply :: jsstring where
  "gratitudeReply = js ''You're welcome! I'm happy to help. Is there anything else you'd like to know?''"

definition formattingReply :: jsstring where
  "formattingReply = js ''You can format text using the toolbar above the editor. For bold text, select the text and click the B button or use Ctrl+B. For italic, use the I button or Ctrl+I. For underline, use the U button or Ctrl+U.''"

definition headingsReply :: jsstring where
  "headingsReply = js ''To add headings, click on H1, H2, or H3 in the toolbar depending on the heading level you need. H1 is the largest heading, while H3 is the smallest.''"

definition listsReply :: jsstring where
  "listsReply = js ''You can create lists using the toolbar. Click the bullet list icon for unordered lists or the numbered list icon for ordered lists. You can also start a line with '- ' or '1. ' to automatically create a list.''"

definition savingReply :: jsstring where
  "savingReply = js ''All your notes are automatically saved as you type. You don't need to manually save anything! If you want to force a save, you can use the Ctrl+S keyboard shortcut.''"

definition shortcutsReply :: jsstring where
  "shortcutsReply = js ''Here are some useful keyboard shortcuts:\<newline>'' @ bullet @ js '' Ctrl+S: Force save the current note\<newline>'' @ bullet @ js '' Ctrl+M: Toggle Markdown view\<newline>'' @ bullet @ js '' Ctrl+/: Toggle this AI chat assistant\<newline>'' @ bullet @ js '' Ctrl+B: Bold text\<newline>'' @ bullet @ js '' Ctrl+I: Italic text\<newline>'' @ bullet @ js '' Ctrl+U: Underline text''"

definition themeReply :: jsstring where
  "themeReply = js ''You can toggle between dark and light mode by clicking the theme toggle button in the top-right corner of the editor. Your preference will be saved for future sessions.''"

definition linksReply :: jsstring where
  "linksReply = js ''To add a link, select the text you want to link and click the link icon in the toolbar, then enter the URL. To add an image, click the image icon and enter the image URL.''"

definition markdownReply :: jsstring where
  "markdownReply = js ''This editor supports Markdown view. You can toggle between rich text and Markdown view by clicking the 'View as Markdown' button in the top bar or using the Ctrl+M keyboard shortcut.''"

definition featuresReply :: jsstring where
  "featuresReply = js ''This notes app offers rich text editing with formatting, headings, lists, links, and images. Features include:\<newline>'' @ bullet @ js '' Dark/light mode\<newline>'' @ bullet @ js '' Markdown support\<newline>'' @ bullet @ js '' Auto-saving\<newline>'' @ bullet @ js '' AI assistant (that's me!)\<newline>'' @ bullet @ js '' Keyboard shortcuts\<newline>\<newline>What specific feature would you like to know more about?''"

definition meetingTemplate :: jsstring where
  "meetingTemplate = js ''For meeting notes, try this structure:\<newline>\<newline>**Meeting Title**\<newline>Date: [Date]\<newline>Participants: [Names]\<newline>\<newline>**Agenda**\<newline>1. [Item 1]\<newline>2. [Item 2]\<newline>\<newline>**Discussion Points**\<newline>- Key point 1\<newline>- Key point 2\<newline>\<newline>**Action Items**\<newline>- [ ] Task 1 (Owner, Due Date)\<newline>- [ ] Task 2 (Owner, Due Date)\<newline>\<newline>**Next Steps**\<newline>[Future plans or follow-up]''"

definition lectureTemplate :: jsstring where
  "lectureTemplate = js ''For lecture notes, try the Cornell method:\<newline>\<newline>**Topic: [Subject]**\<newline>Date: [Date]\<newline>\<newline>**Main Notes Section:**\<newline>- Key point 1 with details\<newline>- Key point 2 with details\<newline>\<newline>**Cue Column (add after class):**\<newline>- Questions about the material\<newline>- Keywords and concepts\<newline>\<newline>**Summary (add after class):**\<newline>Brief paragraph summarizing the key concepts''"

definition projectTemplate :: jsstring where
  "projectTemplate = js ''For project planning notes, try this structure:\<newline>\<newline>**Project Title**\<newline>\<newline>**Objective:**\<newline>[Clear statement of what the project aims to achieve]\<newline>\<newline>**Key Deliverables:**\<newline>1. [Deliverable 1]\<newline>2. [Deliverable 2]\<newline>\<newline>**Timeline:**\<newline>- Phase 1: [Dates]\<newline>- Phase 2: [Dates]\<newline>\<newline>**Resources Needed:**\<newline>- [Resource 1]\<newline>- [Resource 2]\<newline>\<newline>**Team Members:**\<newline>- [Name] - [Role]\<newline>- [Name] - [Role]\<newline>\<newline>**Notes:**\<newline>[Additional information]''"

definition journalTemplate :: jsstring where
  "journalTemplate = js ''For a daily journal entry, try this format:\<newline>\<newline>**Date: [Date]**\<newline>\<newline>**Today's Focus:**\<newline>[Main priorities or theme for the day]\<newline>\<newline>**Accomplishments:**\<newline>- [What you completed]\<newline>- [Progress made]\<newline>\<newline>**Challenges:**\<newline>- [Obstacles encountered]\<newline>- [Problems to solve]\<newline>\<newline>**Insights:**\<newline>[What you learned]\<newline>\<newline>**Tomorrow's Plan:**\<newline>- [Task 1]\<newline>- [Task 2]''"

definition templateMenu :: jsstring where
  "templateMenu = js ''I can suggest note templates for different purposes. Would you like a template for:\<newline>'' @ bullet @ js '' Meeting notes\<newline>'' @ bullet @ js '' Lecture notes\<newline>'' @ bullet @ js '' Project planning\<newline>'' @ bullet @ js '' Daily journal\<newline>'' @ bullet @ js '' Research notes\<newline>\<newline>Just ask for any of these specific templates!''"

definition helpReply :: jsstring where
  "helpReply = js ''I can help you with formatting, organization, and using features of this notes app. Ask me specific questions like 'How do I create headings?' or 'What keyboard shortcuts are available?' or 'Do you have a template for meeting notes?'' @ [0x27]"

definition organizeReply :: jsstring where
  "organizeReply = js ''To better organize your notes, consider using headings (H1, H2, H3) to create a clear hierarchy. You can also use bullet points for key ideas and numbered lists for sequential information or steps.''"

definition writingReply :: jsstring where
  "writingReply = js ''For better writing, try to use clear headings and short paragraphs. The editor supports formatting that can help emphasize important points using bold or italic text. Would you like specific suggestions for improving your current note?''"


subsection \<open>The random draw\<close>

text \<open>
  \<open>Math.floor(Math.random() * n)\<close>, with \<open>r\<close> the value \<open>Math.random()\<close> returned: a
  double, at least 0 and less than 1. The product is the double nearest to the exact
  product, ties going to the even significand. One call of the matcher draws at most
  once, so the draw is one parameter \<open>r\<close> of the matcher.

  A finite double is \<open>m * 2^e\<close> with \<open>|m| < 2^53\<close> and \<open>-1074 \<le> e \<le> 971\<close>.
\<close>

definition isDouble :: "real \<Rightarrow> bool" where
  "isDouble x \<longleftrightarrow>
     (\<exists>m e. x = real_of_int m * 2 powi e \<and> \<bar>m\<bar> < 2 ^ 53 \<and> - 1074 \<le> e \<and> e \<le> 971)"

text \<open>The integer nearest to \<open>q\<close>, the even one of two equally near.\<close>

definition roundHalfEven :: "real \<Rightarrow> int" where
  "roundHalfEven q =
     (let f = \<lfloor>q\<rfloor>
      in if q - real_of_int f < 1 / 2 then f
         else if 1 / 2 < q - real_of_int f then f + 1
         else if even f then f else f + 1)"

text \<open>
  The exponent \<open>k\<close> with \<open>2^k \<le> x < 2^(k + 1)\<close>, found by halving a number that is at
  least 1 and by doubling one that is below 1, the doubling stopping at the least
  exponent of the normal range, \<open>-1022\<close>.
\<close>

function binadeUp :: "real \<Rightarrow> int \<Rightarrow> int" where
  "binadeUp x k = (if x < 2 then k else binadeUp (x / 2) (k + 1))"
  by pat_completeness auto
termination
proof (relation "measure (\<lambda>(x, k). nat \<lfloor>x\<rfloor>)")
  show "wf (measure (\<lambda>(x :: real, k :: int). nat \<lfloor>x\<rfloor>))" by simp
next
  fix x :: real and k :: int
  assume "\<not> x < 2"
  then have "x / 2 \<le> x - 1" by simp
  then have "\<lfloor>x / 2\<rfloor> \<le> \<lfloor>x - 1\<rfloor>" by (rule floor_mono)
  then have "\<lfloor>x / 2\<rfloor> < \<lfloor>x\<rfloor>" by simp
  moreover from \<open>\<not> x < 2\<close> have "0 < \<lfloor>x\<rfloor>" by simp
  ultimately show "((x / 2, k + 1), (x, k)) \<in> measure (\<lambda>(x, k). nat \<lfloor>x\<rfloor>)"
    by simp
qed

function binadeDown :: "real \<Rightarrow> int \<Rightarrow> int" where
  "binadeDown x k = (if 1 \<le> x \<or> k \<le> - 1022 then k else binadeDown (2 * x) (k - 1))"
  by pat_completeness auto
termination
  by (relation "measure (\<lambda>(x, k). nat (k + 1022))") simp_all

declare binadeUp.simps [simp del] binadeDown.simps [simp del]

text \<open>
  The doubles around a positive \<open>x\<close> are the multiples of \<open>2^(k - 52)\<close>, for that
  exponent \<open>k\<close>. \<open>roundDouble\<close> rounds a non-negative real below the overflow threshold
  to a double.
\<close>

definition ulpExponent :: "real \<Rightarrow> int" where
  "ulpExponent x = (if 1 \<le> x then binadeUp x 0 else binadeDown x 0) - 52"

definition roundDouble :: "real \<Rightarrow> real" where
  "roundDouble x =
     (if x = 0 then 0
      else real_of_int (roundHalfEven (x / 2 powi ulpExponent x)) * 2 powi ulpExponent x)"

definition randomIndex :: "real \<Rightarrow> nat \<Rightarrow> nat" where
  "randomIndex r n = nat \<lfloor>roundDouble (r * real n)\<rfloor>"

subsection \<open>The rules\<close>

text \<open>
  \<open>generateIntelligentResponse\<close> is a sequence of tests, each returning a reply or falling
  through to the next. Each test is a function to an optional reply, \<open>None\<close> where the
  source falls through; the matcher tries them in the source's order. The \<open>console.log\<close>
  of the detected topics has no part in the result and is left out.
\<close>

definition detectedTopics :: "(jsstring \<Rightarrow> jsstring) \<Rightarrow> jsstring \<Rightarrow> jsstring list" where
  "detectedTopics toLowerCase queryLower =
     filter (\<lambda>topic. includes_str queryLower (toLowerCase topic)) NOTE_TOPICS"

text \<open>Topics mentioned with no direct question.\<close>

definition topicScan :: "(jsstring \<Rightarrow> jsstring) \<Rightarrow> jsstring \<Rightarrow> jsstring option" where
  "topicScan toLowerCase queryLower =
     (let topics = detectedTopics toLowerCase queryLower
      in if length topics > 0 \<and>
            \<not> includes_str queryLower (js ''?'') \<and>
            \<not> includes_str queryLower (js ''how'') \<and>
            \<not> includes_str queryLower (js ''what'')
         then (if js ''markdown'' \<in> set topics then Some markdownNotice
               else if js ''keyboard shortcuts'' \<in> set topics then Some shortcutsNotice
               else if list_ex
                         (\<lambda>topic. topic \<in> set [js ''formatting'', js ''bold'', js ''italic'',
                                                 js ''lists''])
                         topics
               then Some (js ''I see you're interested in '' @ joinWith topics (js '', '') @
                          js ''. You can access these formatting options in the toolbar above the editor. Would you like specific instructions?'')
               else None)
         else None)"

text \<open>\<open>/^(hi|hello|hey|greetings).*/\<close>: the lower-cased query starts with one of the words.\<close>

definition greeting :: "jsstring \<Rightarrow> jsstring option" where
  "greeting queryLower =
     (if prefix (js ''hi'') queryLower \<or> prefix (js ''hello'') queryLower \<or>
         prefix (js ''hey'') queryLower \<or> prefix (js ''greetings'') queryLower
      then Some greetingReply else None)"

text \<open>\<open>/(thank|thanks|thank you|appreciate it|grateful).*/\<close>: one of the phrases occurs.\<close>

definition gratitude :: "jsstring \<Rightarrow> jsstring option" where
  "gratitude queryLower =
     (if includes_str queryLower (js ''thank'') \<or> includes_str queryLower (js ''thanks'') \<or>
         includes_str queryLower (js ''thank you'') \<or>
         includes_str queryLower (js ''appreciate it'') \<or>
         includes_str queryLower (js ''grateful'')
      then Some gratitudeReply else None)"

text \<open>Questions about the editor's features; \<open>/h[1-3]/\<close> is one of \<open>h1\<close>, \<open>h2\<close>, \<open>h3\<close>.\<close>

definition featureQuestion :: "jsstring \<Rightarrow> real \<Rightarrow> jsstring option" where
  "featureQuestion queryLower r =
     (if includes_str queryLower (js ''how'') \<or> includes_str queryLower (js ''what'') \<or>
         includes_str queryLower (js ''?'')
      then
        (if includes_str queryLower (js ''format'') \<or> includes_str queryLower (js ''bold'') \<or>
            includes_str queryLower (js ''italic'') \<or>
            includes_str queryLower (js ''underline'')
         then Some formattingReply
         else if includes_str queryLower (js ''heading'') \<or>
            includes_str queryLower (js ''title'') \<or>
            (includes_str queryLower (js ''h1'') \<or> includes_str queryLower (js ''h2'') \<or>
             includes_str queryLower (js ''h3''))
         then Some headingsReply
         else if includes_str queryLower (js ''list'') \<or>
            includes_str queryLower (js ''bullet'') \<or>
            includes_str queryLower (js ''numbered'')
         then Some listsReply
         else if includes_str queryLower (js ''save'') \<or>
            includes_str queryLower (js ''autosave'')
         then Some savingReply
         else if includes_str queryLower (js ''shortcut'') \<or>
            includes_str queryLower (js ''keyboard'')
         then Some shortcutsReply
         else if includes_str queryLower (js ''dark'') \<or>
            includes_str queryLower (js ''light'') \<or>
            includes_str queryLower (js ''theme'') \<or> includes_str queryLower (js ''mode'')
         then Some themeReply
         else if includes_str queryLower (js ''link'') \<or> includes_str queryLower (js ''url'') \<or>
            includes_str queryLower (js ''image'') \<or>
            includes_str queryLower (js ''picture'') \<or>
            includes_str queryLower (js ''photo'')
         then Some linksReply
         else if includes_str queryLower (js ''markdown'')
         then Some markdownReply
         else if includes_str queryLower (js ''writing'') \<or>
            includes_str queryLower (js ''tip'') \<or>
            includes_str queryLower (js ''advice'') \<or>
            includes_str queryLower (js ''improve'') \<or>
            includes_str queryLower (js ''better'')
         then
           (let randomTip = WRITING_TIPS ! randomIndex r (length WRITING_TIPS)
            in Some (js ''Here's a writing tip: '' @ randomTip @
                     js ''. Would you like another tip or more specific advice about a particular aspect of note-taking?''))
         else if includes_str queryLower (js ''study'') \<or>
            includes_str queryLower (js ''technique'') \<or>
            includes_str queryLower (js ''method'') \<or>
            includes_str queryLower (js ''productivity'') \<or>
            includes_str queryLower (js ''focus'') \<or>
            includes_str queryLower (js ''concentrate'')
         then
           (let technique =
                  PRODUCTIVITY_TECHNIQUES ! randomIndex r (length PRODUCTIVITY_TECHNIQUES)
            in Some (js ''You might want to try the **'' @ name technique @ js ''**: '' @
                     description technique @
                     js '' Would you like to hear about other productivity techniques?''))
         else if includes_str queryLower (js ''feature'') \<or>
            includes_str queryLower (js ''do'') \<or> includes_str queryLower (js ''can'')
         then Some featuresReply
         else None)
      else None)"

text \<open>Note types and templates.\<close>

definition templateRequest :: "jsstring \<Rightarrow> jsstring option" where
  "templateRequest queryLower =
     (if includes_str queryLower (js ''template'') \<or>
         includes_str queryLower (js ''type of note'') \<or>
         includes_str queryLower (js ''structure'') \<or>
         includes_str queryLower (js ''format for'')
      then
        (if includes_str queryLower (js ''meeting'') \<or>
            includes_str queryLower (js ''minutes'')
         then Some meetingTemplate
         else if includes_str queryLower (js ''lecture'') \<or>
            includes_str queryLower (js ''class'') \<or>
            includes_str queryLower (js ''course'')
         then Some lectureTemplate
         else if includes_str queryLower (js ''project'') \<or>
            includes_str queryLower (js ''plan'')
         then Some projectTemplate
         else if includes_str queryLower (js ''daily'') \<or>
            includes_str queryLower (js ''journal'') \<or>
            includes_str queryLower (js ''diary'')
         then Some journalTemplate
         else Some templateMenu)
      else None)"

text \<open>Commands or requests.\<close>

definition genericHelp :: "jsstring \<Rightarrow> jsstring option" where
  "genericHelp queryLower =
     (if includes_str queryLower (js ''help'') \<or> includes_str queryLower (js ''assist'')
      then Some helpReply else None)"

text \<open>The earlier messages of the conversation, when there are any.\<close>

definition contextual ::
  "(jsstring \<Rightarrow> jsstring) \<Rightarrow> jsstring list \<Rightarrow> real \<Rightarrow> jsstring option" where
  "contextual toLowerCase context r =
     (if length context > 0
      then
        (let recentContext = toLowerCase (joinWith context (js '' ''))
         in if includes_str recentContext (js ''organize'') \<or>
               includes_str recentContext (js ''structure'') \<or>
               includes_str recentContext (js ''arrange'')
            then Some organizeReply
            else if includes_str recentContext (js ''write'') \<or>
               includes_str recentContext (js ''writing'') \<or>
               includes_str recentContext (js ''improve'') \<or>
               includes_str recentContext (js ''better'')
            then Some writingReply
            else if includes_str recentContext (js ''focus'') \<or>
               includes_str recentContext (js ''concentrate'') \<or>
               includes_str recentContext (js ''productive'') \<or>
               includes_str recentContext (js ''distract'')
            then
              (let technique =
                     PRODUCTIVITY_TECHNIQUES ! randomIndex r (length PRODUCTIVITY_TECHNIQUES)
               in Some (js ''For better focus when taking notes, you might try the '' @
                        name technique @ js '': '' @ description technique))
            else None)
      else None)"

text \<open>
  The default replies; \<open>query.substring(0, 30)\<close> is the first 30 code units of the query.
\<close>

definition thoughtfulResponses :: "jsstring \<Rightarrow> jsstring list" where
  "thoughtfulResponses query =
     [js ''That's an interesting question. To help you better with your notes, could you provide more specific details about what you're trying to accomplish?'',
      js ''I understand you're asking about '' @ take 30 query @
        js ''... Could you tell me more about what you're trying to achieve so I can provide more targeted assistance?'',
      js ''I'd be happy to help with that. Could you share a bit more about the specific challenge you're facing with your notes?'',
      js ''Great question! The editor supports many features that might help with this. What specific outcome are you looking for?'',
      js ''I can definitely help with that. Let me know if you'd like me to explain any particular feature in more detail.'']"

definition generateIntelligentResponse ::
  "(jsstring \<Rightarrow> jsstring) \<Rightarrow> jsstring \<Rightarrow> jsstring list \<Rightarrow> real \<Rightarrow> jsstring" where
  "generateIntelligentResponse toLowerCase query context r =
     (let queryLower = toLowerCase query
      in case topicScan toLowerCase queryLower of Some reply \<Rightarrow> reply | None \<Rightarrow>
        (case greeting queryLower of Some reply \<Rightarrow> reply | None \<Rightarrow>
        (case gratitude queryLower of Some reply \<Rightarrow> reply | None \<Rightarrow>
        (case featureQuestion queryLower r of Some reply \<Rightarrow> reply | None \<Rightarrow>
        (case templateRequest queryLower of Some reply \<Rightarrow> reply | None \<Rightarrow>
        (case genericHelp queryLower of Some reply \<Rightarrow> reply | None \<Rightarrow>
        (case contextual toLowerCase context r of Some reply \<Rightarrow> reply | None \<Rightarrow>
           thoughtfulResponses query
             ! randomIndex r (length (thoughtfulResponses query)))))))))"

section \<open>Auxiliary facts\<close>

subsection \<open>Lists and strings\<close>

lemma findIndex_None_iff: "findIndex P xs = None \<longleftrightarrow> (\<forall>x \<in> set xs. \<not> P x)"
  by (induction xs) auto

lemma findIndex_Some:
  "findIndex P xs = Some k \<Longrightarrow> k < length xs \<and> P (xs ! k) \<and> find P xs = Some (xs ! k)"
  by (induction xs arbitrary: k) (auto split: if_splits)

lemma find_findIndex:
  "find P xs = Some x \<Longrightarrow> \<exists>k. findIndex P xs = Some k \<and> k < length xs \<and> xs ! k = x"
  by (induction xs) (auto split: if_splits)

lemma find_list_update_first:
  "findIndex P xs = Some k \<Longrightarrow> P m \<Longrightarrow> find P (xs[k := m]) = Some m"
  by (induction xs arbitrary: k) (auto split: if_splits)

lemma findIndex_absent:
  "i \<notin> set (map note_id xs) \<Longrightarrow> findIndex (\<lambda>note. note_id note = i) xs = None"
  by (simp add: findIndex_None_iff) auto

lemma filter_absent:
  "i \<notin> set (map note_id xs) \<Longrightarrow> filter (\<lambda>note. note_id note \<noteq> i) xs = xs"
  by (induction xs) auto

lemma includes_str_iff: "includes_str s t \<longleftrightarrow> (\<exists>u v. s = u @ t @ v)"
proof (induction s)
  case Nil
  then show ?case by simp
next
  case (Cons c cs)
  show ?case
  proof
    assume "includes_str (c # cs) t"
    then consider "prefix t (c # cs)" | "includes_str cs t" by auto
    then show "\<exists>u v. c # cs = u @ t @ v"
    proof cases
      case 1
      then obtain v where "c # cs = t @ v" by (auto simp: prefix_def)
      then have "c # cs = [] @ t @ v" by simp
      then show ?thesis by blast
    next
      case 2
      with Cons.IH obtain u v where "cs = u @ t @ v" by blast
      then have "c # cs = (c # u) @ t @ v" by simp
      then show ?thesis by blast
    qed
  next
    assume "\<exists>u v. c # cs = u @ t @ v"
    then obtain u v where uv: "c # cs = u @ t @ v" by blast
    show "includes_str (c # cs) t"
    proof (cases u)
      case Nil
      with uv have "prefix t (c # cs)" by (simp add: prefix_def)
      then show ?thesis by simp
    next
      case (Cons d u')
      with uv have "cs = u' @ t @ v" by simp
      with Cons.IH have "includes_str cs t" by blast
      then show ?thesis by simp
    qed
  qed
qed

text \<open>The tag pattern on small inputs: nested markup, and a \<open><\<close> that opens no tag.\<close>

lemma stripTags_examples:
  "stripTags (js ''<p>Buy <b>milk</b></p>'') = js ''Buy milk''"
  "stripTags (js ''a<b<c>d>e'') = js ''ad>e''"
  "stripTags (js ''1 < 2'') = js ''1 < 2''"
  by (simp_all add: js_def)

text \<open>
  \<open>trim\<close> on a string with a no-break space and a line separator around it, and on one
  made of white space only.
\<close>

lemma trim_examples:
  "trim ([0x00A0, 0x0020] @ js ''a b'' @ [0x2028, 0x000A]) = js ''a b''"
  "trim [0x0020, 0x0009, 0x00A0, 0xFEFF] = []"
  by (simp_all add: trim_def isWhiteSpace_def js_def)

lemma asciiLowerCase_example:
  "asciiLowerCase (js ''Ctrl+M: Markdown?'') = js ''ctrl+m: markdown?''"
  by (simp add: asciiLowerCase_def js_def)


subsection \<open>The selection invariant\<close>

lemma activeValid_addNote: "activeValid (snd (addNote gid now t s))"
  by (simp add: addNote_def activeValid_def Let_def)

lemma activeValid_deleteNote:
  assumes "activeValid s"
  shows "activeValid (deleteNote i s)"
proof (cases "activeNoteId s")
  case None
  with assms have "notes s = []" by (simp add: activeValid_def)
  with None show ?thesis by (simp add: deleteNote_def activeValid_def Let_def)
next
  case (Some a)
  with assms have a: "a \<in> set (map note_id (notes s))" by (simp add: activeValid_def)
  let ?r = "filter (\<lambda>note. note_id note \<noteq> i) (notes s)"
  show ?thesis
  proof (cases "?r = []")
    case True
    then show ?thesis by (simp add: deleteNote_def activeValid_def Let_def)
  next
    case nonempty: False
    show ?thesis
    proof (cases "a = i")
      case True
      from nonempty have "?r ! 0 \<in> set ?r" by (simp del: set_filter)
      with True Some nonempty show ?thesis
        by (simp add: deleteNote_def activeValid_def Let_def del: set_filter)
    next
      case False
      with a have "a \<in> set (map note_id ?r)" by auto
      with False Some nonempty show ?thesis
        by (simp add: deleteNote_def activeValid_def Let_def del: set_filter)
    qed
  qed
qed

lemma activeValid_step: "activeValid s \<Longrightarrow> activeValid (step c s)"
  by (cases c) (simp_all add: activeValid_addNote activeValid_deleteNote)

lemma activeValid_run: "activeValid s \<Longrightarrow> activeValid (run cs s)"
  by (induction cs arbitrary: s) (simp_all add: activeValid_step)

lemma seeded_dangling:
  "gid3 \<noteq> gid1 \<Longrightarrow> gid3 \<noteq> gid2 \<Longrightarrow>
   \<not> activeValid (initialState gid1 now1 gid2 now2 gid3 now3 gid4 now4)"
  by (simp add: initialState_def createDefaultNotes_def activeValid_def)

lemma deleteNote_notes:
  "notes (deleteNote i s) = filter (\<lambda>note. note_id note \<noteq> i) (notes s)"
  by (simp add: deleteNote_def Let_def)

lemma deleteNote_active:
  "activeNoteId (deleteNote i s) =
     (case filter (\<lambda>note. note_id note \<noteq> i) (notes s) of
        [] \<Rightarrow> None
      | n # ns \<Rightarrow> if activeNoteId s = Some i then Some (note_id n) else activeNoteId s)"
  by (simp add: deleteNote_def Let_def split: list.split)

subsection \<open>Updating a note\<close>

text \<open>
  What \<open>updateNote\<close> does to an existing note: the first note with the id is replaced by
  the merged note when the guard holds, and nothing changes otherwise.
\<close>

lemma updateNote_found:
  assumes "fst (getNoteById i s) = Some n"
  shows "\<exists>k. findIndex (\<lambda>note. note_id note = i) (notes s) = Some k \<and>
           k < length (notes s) \<and> notes s ! k = n \<and>
           updateNote now i data s =
             (if hasChanged data n
              then s\<lparr>notes := (notes s)[k := mergeNote n data now]\<rparr> else s)"
proof -
  from assms have f: "find (\<lambda>note. note_id note = i) (notes s) = Some n"
    by (simp add: getNoteById_def)
  from find_findIndex [OF f]
  obtain k where k: "findIndex (\<lambda>note. note_id note = i) (notes s) = Some k"
    "k < length (notes s)" "notes s ! k = n"
    by blast
  then have "updateNote now i data s =
      (if hasChanged data n then s\<lparr>notes := (notes s)[k := mergeNote n data now]\<rparr> else s)"
    by (simp add: updateNote_def Let_def)
  with k show ?thesis by blast
qed

text \<open>The same title and the same content, and nothing else: no change at all.\<close>

lemma updateNote_same_title_content:
  assumes "fst (getNoteById i s) = Some n"
    and "title n = Some t" and "content n = Some c"
  shows "updateNote now i
           \<lparr>d_title = Value t, d_content = Value c,
            d_chatHistory = Absent, d_lastUpdated = Absent\<rparr> s = s"
proof -
  from updateNote_found [OF assms(1)]
  obtain k where "updateNote now i
           \<lparr>d_title = Value t, d_content = Value c,
            d_chatHistory = Absent, d_lastUpdated = Absent\<rparr> s =
      (if hasChanged \<lparr>d_title = Value t, d_content = Value c,
            d_chatHistory = Absent, d_lastUpdated = Absent\<rparr> n
       then s\<lparr>notes := (notes s)[k := mergeNote n \<lparr>d_title = Value t, d_content = Value c,
            d_chatHistory = Absent, d_lastUpdated = Absent\<rparr> now]\<rparr> else s)"
    by blast
  moreover have "\<not> hasChanged \<lparr>d_title = Value t, d_content = Value c,
            d_chatHistory = Absent, d_lastUpdated = Absent\<rparr> n"
    using assms(2,3) by (simp add: hasChanged_def)
  ultimately show ?thesis by simp
qed

text \<open>No change whenever no chat history is given and title and content are absent or the same.\<close>

lemma updateNote_unchanged:
  assumes "fst (getNoteById i s) = Some n"
    and "d_chatHistory data = Absent"
    and "d_title data = Absent \<or> (d_title data = Value t \<and> title n = Some t)"
    and "d_content data = Absent \<or> (d_content data = Value c \<and> content n = Some c)"
  shows "updateNote now i data s = s"
proof -
  from updateNote_found [OF assms(1)]
  obtain k where u: "updateNote now i data s =
      (if hasChanged data n then s\<lparr>notes := (notes s)[k := mergeNote n data now]\<rparr> else s)"
    by blast
  have "\<not> hasChanged data n"
    using assms(2-4) by (auto simp: hasChanged_def)
  with u show ?thesis by simp
qed

text \<open>
  A chat history in \<open>data\<close> always passes the guard, equal to the stored one or not: the
  note is rewritten and \<open>lastUpdated\<close> takes the clock value.
\<close>

lemma updateNote_chatHistory:
  assumes "fst (getNoteById i s) = Some n" and "d_chatHistory data = Value h"
  shows "fst (getNoteById i (updateNote now i data s)) = Some (mergeNote n data now)"
    and "lastUpdated (mergeNote n data now) = now"
    and "chatHistory (mergeNote n data now) = Some h"
proof -
  from updateNote_found [OF assms(1)]
  obtain k where k: "findIndex (\<lambda>note. note_id note = i) (notes s) = Some k"
    and u: "updateNote now i data s =
      (if hasChanged data n then s\<lparr>notes := (notes s)[k := mergeNote n data now]\<rparr> else s)"
    by blast
  from assms(1) have "note_id n = i"
    by (auto simp: getNoteById_def find_Some_iff)
  then have "note_id (mergeNote n data now) = i" by (simp add: mergeNote_def)
  with find_list_update_first [OF k, of "mergeNote n data now"]
  have "find (\<lambda>note. note_id note = i) ((notes s)[k := mergeNote n data now])
      = Some (mergeNote n data now)" by simp
  moreover have "hasChanged data n" using assms(2) by (simp add: hasChanged_def)
  ultimately show "fst (getNoteById i (updateNote now i data s)) = Some (mergeNote n data now)"
    by (simp add: u getNoteById_def)
  show "lastUpdated (mergeNote n data now) = now" by (simp add: mergeNote_def)
  show "chatHistory (mergeNote n data now) = Some h"
    using assms(2) by (simp add: mergeNote_def)
qed

subsection \<open>Searching\<close>






subsection \<open>Rounding to a double\<close>

text \<open>The two searches find the integer part of the binary logarithm.\<close>

lemma binadeUp_log: "1 \<le> x \<Longrightarrow> binadeUp x k = k + \<lfloor>log 2 x\<rfloor>"
proof (induction x k rule: binadeUp.induct)
  case (1 x k)
  show ?case
  proof (cases "x < 2")
    case True
    with "1.prems" have "\<lfloor>log 2 x\<rfloor> = 0" by (simp add: floor_log_eq_powr_iff)
    with True show ?thesis by (subst binadeUp.simps) simp
  next
    case False
    then have half: "1 \<le> x / 2" by simp
    from False have "log 2 (x / 2) = log 2 x - 1" by (simp add: log_divide)
    then have "\<lfloor>log 2 (x / 2)\<rfloor> = \<lfloor>log 2 x\<rfloor> - 1" by simp
    with "1.IH" [OF False half] False show ?thesis
      by (subst binadeUp.simps) simp
  qed
qed

lemma binadeDown_log:
  "0 < x \<Longrightarrow> x < 2 \<Longrightarrow> - 1022 \<le> k \<Longrightarrow> binadeDown x k = max (k + \<lfloor>log 2 x\<rfloor>) (- 1022)"
proof (induction x k rule: binadeDown.induct)
  case (1 x k)
  show ?case
  proof (cases "1 \<le> x")
    case True
    with "1.prems" have "\<lfloor>log 2 x\<rfloor> = 0" by (simp add: floor_log_eq_powr_iff)
    with True "1.prems" show ?thesis by (subst binadeDown.simps) simp
  next
    case small: False
    with "1.prems" have "log 2 x < 0" by simp
    then have neg: "\<lfloor>log 2 x\<rfloor> \<le> - 1" by linarith
    show ?thesis
    proof (cases "k \<le> - 1022")
      case True
      with neg "1.prems" show ?thesis by (subst binadeDown.simps) simp
    next
      case False
      with small have c: "\<not> (1 \<le> x \<or> k \<le> - 1022)" by simp
      from "1.prems" have "log 2 (2 * x) = 1 + log 2 x" by (simp add: log_mult)
      then have fl: "\<lfloor>log 2 (2 * x)\<rfloor> = \<lfloor>log 2 x\<rfloor> + 1" by simp
      from "1.prems" small False
      have "0 < 2 * x" and "2 * x < 2" and "- 1022 \<le> k - 1" by simp_all
      with "1.IH" [OF c]
      have "binadeDown (2 * x) (k - 1) = max (k - 1 + \<lfloor>log 2 (2 * x)\<rfloor>) (- 1022)"
        by blast
      with fl c show ?thesis by (subst binadeDown.simps) simp
    qed
  qed
qed

lemma ulpExponent_log:
  assumes "0 < x"
  shows "ulpExponent x = max \<lfloor>log 2 x\<rfloor> (- 1022) - 52"
proof (cases "1 \<le> x")
  case True
  then have "0 \<le> log 2 x" by simp
  then have "0 \<le> \<lfloor>log 2 x\<rfloor>" by simp
  then have m: "max \<lfloor>log 2 x\<rfloor> (- 1022) = \<lfloor>log 2 x\<rfloor>" by linarith
  from True have "ulpExponent x = 0 + \<lfloor>log 2 x\<rfloor> - 52"
    by (simp only: ulpExponent_def binadeUp_log if_True)
  then show ?thesis by (simp add: m)
next
  case False
  with assms have "binadeDown x 0 = max (0 + \<lfloor>log 2 x\<rfloor>) (- 1022)"
    by (intro binadeDown_log) simp_all
  with False show ?thesis by (simp add: ulpExponent_def)
qed

lemma two_powi_powr: "(2::real) powi e = 2 powr real_of_int e"
  by (simp add: powr_real_of_int')

lemma roundDouble_pos:
  assumes "0 < x"
  shows "roundDouble x =
    real_of_int (roundHalfEven (x / 2 powr real_of_int (max \<lfloor>log 2 x\<rfloor> (- 1022) - 52)))
      * 2 powr real_of_int (max \<lfloor>log 2 x\<rfloor> (- 1022) - 52)"
proof -
  from assms have "x \<noteq> 0" by simp
  then have "roundDouble x =
      real_of_int (roundHalfEven (x / 2 powi ulpExponent x)) * 2 powi ulpExponent x"
    by (simp only: roundDouble_def if_False)
  then show ?thesis
    by (simp only: ulpExponent_log [OF assms] two_powi_powr)
qed

lemma roundHalfEven_upper: "real_of_int (roundHalfEven q) \<le> q + 1 / 2"
  unfolding roundHalfEven_def Let_def by (auto; linarith)

lemma roundHalfEven_lower: "q - 1 / 2 \<le> real_of_int (roundHalfEven q)"
  unfolding roundHalfEven_def Let_def by (auto; linarith)

lemma roundHalfEven_nonneg: "0 \<le> q \<Longrightarrow> 0 \<le> roundHalfEven q"
  using roundHalfEven_lower [of q] by linarith

lemma roundHalfEven_le_int:
  assumes "q < real_of_int N + 1 / 2"
  shows "roundHalfEven q \<le> N"
proof -
  have "real_of_int (roundHalfEven q) < real_of_int N + 1"
    using roundHalfEven_upper [of q] assms by linarith
  then show ?thesis by linarith
qed

lemma double_below_one:
  assumes "isDouble r" and "r < 1"
  shows "r \<le> 1 - 1 / 2 ^ 53"
proof -
  from assms(1) obtain m e where r: "r = real_of_int m * 2 powr real_of_int e"
    and m: "\<bar>m\<bar> < 2 ^ 53" and e: "- 1074 \<le> e" "e \<le> 971"
    by (auto simp: isDouble_def two_powi_powr)
  show ?thesis
  proof (cases "e < - 53")
    case True
    then have "real_of_int e \<le> - 54" by linarith
    then have "(2::real) powr real_of_int e \<le> 2 powr (- 54)"
      by (intro powr_mono) simp_all
    then have p: "(2::real) powr real_of_int e \<le> 1 / 2 ^ 54"
      by (simp add: powr_neg_numeral)
    have "m < 2 ^ 53" using m by simp
    then have "real_of_int m < real_of_int (2 ^ 53)" by (simp only: of_int_less_iff)
    then have "real_of_int m \<le> 2 ^ 53" by simp
    moreover have "0 \<le> (2::real) powr real_of_int e" by simp
    ultimately have "r \<le> 2 ^ 53 * 2 powr real_of_int e"
      unfolding r by (intro mult_right_mono) simp_all
    also have "\<dots> \<le> 2 ^ 53 * (1 / 2 ^ 54)"
      using p by (intro mult_left_mono) simp_all
    also have "\<dots> \<le> (1::real) - 1 / 2 ^ 53" by simp
    finally show ?thesis .
  next
    case False
    then have "0 \<le> e + 53" by simp
    then obtain k :: nat where k: "e + 53 = int k" using nonneg_int_cases by blast
    have "r * 2 ^ 53 = real_of_int m * (2 powr real_of_int e * 2 powr 53)"
      unfolding r by simp
    also have "2 powr real_of_int e * 2 powr 53 = (2::real) powr real_of_int (e + 53)"
      by (simp add: powr_add)
    also have "\<dots> = 2 ^ k" unfolding k by (simp add: powr_realpow)
    finally have "r * 2 ^ 53 = real_of_int (m * 2 ^ k)" by simp
    moreover from assms(2) have "r * 2 ^ 53 < 2 ^ 53" by simp
    ultimately have "real_of_int (m * 2 ^ k) < real_of_int (2 ^ 53)" by simp
    then have "m * 2 ^ k < 2 ^ 53" by linarith
    then have "m * 2 ^ k \<le> 2 ^ 53 - 1" by simp
    then have "real_of_int (m * 2 ^ k) \<le> real_of_int (2 ^ 53 - 1)" by linarith
    with \<open>r * 2 ^ 53 = real_of_int (m * 2 ^ k)\<close> have "r * 2 ^ 53 \<le> 2 ^ 53 - 1" by simp
    then show ?thesis by (simp add: field_simps)
  qed
qed

lemma roundDouble_nonneg:
  assumes "0 \<le> x"
  shows "0 \<le> roundDouble x"
proof (cases "x = 0")
  case True
  then show ?thesis by (simp add: roundDouble_def)
next
  case False
  with assms have pos: "0 < x" by simp
  define P :: real where "P = 2 powr real_of_int (max \<lfloor>log 2 x\<rfloor> (- 1022) - 52)"
  have "0 < P" by (simp add: P_def)
  with assms have "0 \<le> x / P" by simp
  then have "0 \<le> roundHalfEven (x / P)" by (rule roundHalfEven_nonneg)
  with \<open>0 < P\<close> have "0 \<le> real_of_int (roundHalfEven (x / P)) * P" by simp
  then show ?thesis by (simp only: roundDouble_pos [OF pos] P_def)
qed

lemma roundDouble_scaled:
  assumes "2 powr real_of_int k \<le> x" and "x < 2 powr real_of_int (k + 1)"
    and "- 1022 \<le> k" and "k \<le> 52"
  shows "roundDouble x =
    real_of_int (roundHalfEven (x * 2 ^ nat (52 - k))) / 2 ^ nat (52 - k)"
proof -
  have "(0::real) < 2 powr real_of_int k" by simp
  with assms(1) have pos: "0 < x" by linarith
  with assms(1,2) have "\<lfloor>log 2 x\<rfloor> = k" by (simp add: floor_log_eq_powr_iff)
  with assms(3) have b: "max \<lfloor>log 2 x\<rfloor> (- 1022) - 52 = k - 52" by simp
  have eq: "real_of_int (k - 52) = - real (nat (52 - k))" using assms(4) by simp
  have "(2::real) powr real_of_int (k - 52) = 2 powr (- real (nat (52 - k)))"
    by (simp only: eq)
  also have "\<dots> = 1 / 2 powr real (nat (52 - k))" by (rule powr_minus_divide)
  also have "\<dots> = 1 / 2 ^ nat (52 - k)" by (simp add: powr_realpow)
  finally have p: "(2::real) powr real_of_int (k - 52) = 1 / 2 ^ nat (52 - k)" .
  have "roundDouble x =
      real_of_int (roundHalfEven (x / 2 powr real_of_int (k - 52))) * 2 powr real_of_int (k - 52)"
    by (simp only: roundDouble_pos [OF pos] b)
  then show ?thesis by (simp only: p) simp
qed

lemma roundDouble_binade:
  assumes "0 < x"
  shows "roundDouble x \<le> 2 powr real_of_int (max \<lfloor>log 2 x\<rfloor> (- 1022) + 1)"
proof -
  define b where "b = max \<lfloor>log 2 x\<rfloor> (- 1022)"
  define P :: real where "P = 2 powr real_of_int (b - 52)"
  have Ppos: "0 < P" by (simp add: P_def)
  have split: "2 powr real_of_int (b + 1) = 2 ^ 53 * P"
  proof -
    have "real_of_int (b + 1) = real_of_int (b - 52) + 53" by simp
    then have "(2::real) powr real_of_int (b + 1) = 2 powr real_of_int (b - 52) * 2 powr 53"
      by (simp only: powr_add)
    also have "(2::real) powr 53 = 2 ^ 53" by (rule powr_numeral) simp
    finally show ?thesis by (simp only: P_def mult.commute)
  qed
  have "log 2 x < real_of_int \<lfloor>log 2 x\<rfloor> + 1" by linarith
  also have "\<dots> \<le> real_of_int (b + 1)" by (simp add: b_def)
  finally have "x < 2 powr real_of_int (b + 1)"
    using assms by (simp only: less_powr_iff one_less_numeral_iff semiring_norm)
  then have "x < 2 ^ 53 * P" by (simp only: split)
  with Ppos have "x / P < 2 ^ 53" by (simp only: pos_divide_less_eq)
  moreover have "(2::real) ^ 53 < real_of_int (2 ^ 53) + 1 / 2" by simp
  ultimately have "x / P < real_of_int (2 ^ 53) + 1 / 2" by (rule less_trans)
  then have "roundHalfEven (x / P) \<le> 2 ^ 53" by (rule roundHalfEven_le_int)
  then have "real_of_int (roundHalfEven (x / P)) \<le> real_of_int (2 ^ 53)"
    by (simp only: of_int_le_iff)
  then have "real_of_int (roundHalfEven (x / P)) \<le> 2 ^ 53" by simp
  with Ppos have "real_of_int (roundHalfEven (x / P)) * P \<le> 2 ^ 53 * P"
    by (simp only: mult_le_cancel_right_pos)
  moreover have "roundDouble x = real_of_int (roundHalfEven (x / P)) * P"
    by (simp only: roundDouble_pos [OF assms] P_def b_def)
  ultimately have "roundDouble x \<le> 2 powr real_of_int (b + 1)" by (simp only: split)
  then show ?thesis by (simp only: b_def)
qed

text \<open>
  A product at least \<open>c / 2^53\<close> below \<open>c\<close>, for \<open>c\<close> one of 5 and 10, rounds to a double
  below \<open>c\<close>: the double just below \<open>c\<close> is nearer than \<open>c\<close> itself.
\<close>

lemma roundDouble_below_five:
  assumes "0 \<le> x" and "x \<le> 5 - 5 / 2 ^ 53"
  shows "roundDouble x < 5"
proof (cases "x < 4")
  case small: True
  show ?thesis
  proof (cases "x = 0")
    case True
    then show ?thesis by (simp add: roundDouble_def)
  next
    case False
    with assms have pos: "0 < x" by simp
    from small have "x < 2 powr 2" by simp
    with pos have "log 2 x < 2" by (simp only: less_powr_iff one_less_numeral_iff semiring_norm)
    then have "\<lfloor>log 2 x\<rfloor> \<le> 1" by linarith
    then have "real_of_int (max \<lfloor>log 2 x\<rfloor> (- 1022) + 1) \<le> 2" by simp
    then have "(2::real) powr real_of_int (max \<lfloor>log 2 x\<rfloor> (- 1022) + 1) \<le> 2 powr 2"
      by (intro powr_mono) simp_all
    with roundDouble_binade [OF pos] have "roundDouble x \<le> 2 powr 2" by linarith
    then show ?thesis by simp
  qed
next
  case False
  then have "2 powr real_of_int 2 \<le> x" by simp
  moreover from assms(2) have "x < 2 powr real_of_int (2 + 1)" by simp
  ultimately have "roundDouble x =
      real_of_int (roundHalfEven (x * 2 ^ nat (52 - 2))) / 2 ^ nat (52 - 2)"
    by (rule roundDouble_scaled) simp_all
  then have rd: "roundDouble x = real_of_int (roundHalfEven (x * 2 ^ 50)) / 2 ^ 50" by simp
  have "x * 2 ^ 50 \<le> (5 - 5 / 2 ^ 53) * 2 ^ 50"
    using assms(2) by (intro mult_right_mono) simp_all
  also have "\<dots> < real_of_int (5 * 2 ^ 50 - 1) + 1 / 2" by simp
  finally have "roundHalfEven (x * 2 ^ 50) \<le> 5 * 2 ^ 50 - 1"
    by (rule roundHalfEven_le_int)
  then have "real_of_int (roundHalfEven (x * 2 ^ 50)) \<le> real_of_int (5 * 2 ^ 50 - 1)"
    by (simp only: of_int_le_iff)
  then have "real_of_int (roundHalfEven (x * 2 ^ 50)) / 2 ^ 50 \<le> real_of_int (5 * 2 ^ 50 - 1) / 2 ^ 50"
    by (intro divide_right_mono) simp_all
  also have "\<dots> < 5" by simp
  finally show ?thesis by (simp only: rd)
qed

lemma roundDouble_below_ten:
  assumes "0 \<le> x" and "x \<le> 10 - 10 / 2 ^ 53"
  shows "roundDouble x < 10"
proof (cases "x < 8")
  case small: True
  show ?thesis
  proof (cases "x = 0")
    case True
    then show ?thesis by (simp add: roundDouble_def)
  next
    case False
    with assms have pos: "0 < x" by simp
    from small have "x < 2 powr 3" by simp
    with pos have "log 2 x < 3" by (simp only: less_powr_iff one_less_numeral_iff semiring_norm)
    then have "\<lfloor>log 2 x\<rfloor> \<le> 2" by linarith
    then have "real_of_int (max \<lfloor>log 2 x\<rfloor> (- 1022) + 1) \<le> 3" by simp
    then have "(2::real) powr real_of_int (max \<lfloor>log 2 x\<rfloor> (- 1022) + 1) \<le> 2 powr 3"
      by (intro powr_mono) simp_all
    with roundDouble_binade [OF pos] have "roundDouble x \<le> 2 powr 3" by linarith
    then show ?thesis by simp
  qed
next
  case False
  then have "2 powr real_of_int 3 \<le> x" by simp
  moreover from assms(2) have "x < 2 powr real_of_int (3 + 1)" by simp
  ultimately have "roundDouble x =
      real_of_int (roundHalfEven (x * 2 ^ nat (52 - 3))) / 2 ^ nat (52 - 3)"
    by (rule roundDouble_scaled) simp_all
  then have rd: "roundDouble x = real_of_int (roundHalfEven (x * 2 ^ 49)) / 2 ^ 49" by simp
  have "x * 2 ^ 49 \<le> (10 - 10 / 2 ^ 53) * 2 ^ 49"
    using assms(2) by (intro mult_right_mono) simp_all
  also have "\<dots> < real_of_int (10 * 2 ^ 49 - 1) + 1 / 2" by simp
  finally have "roundHalfEven (x * 2 ^ 49) \<le> 10 * 2 ^ 49 - 1"
    by (rule roundHalfEven_le_int)
  then have "real_of_int (roundHalfEven (x * 2 ^ 49)) \<le> real_of_int (10 * 2 ^ 49 - 1)"
    by (simp only: of_int_le_iff)
  then have "real_of_int (roundHalfEven (x * 2 ^ 49)) / 2 ^ 49 \<le> real_of_int (10 * 2 ^ 49 - 1) / 2 ^ 49"
    by (intro divide_right_mono) simp_all
  also have "\<dots> < 10" by simp
  finally show ?thesis by (simp only: rd)
qed

text \<open>The index drawn for a list of five, and for one of ten, is in range.\<close>

lemma randomIndex_five:
  assumes "isDouble r" and "0 \<le> r" and "r < 1"
  shows "randomIndex r 5 < 5"
proof -
  have bound: "nat z < 5" if "0 \<le> z" "z < 5" for z :: int using that by arith
  from double_below_one [OF assms(1,3)] have "r * 5 \<le> 5 - 5 / 2 ^ 53" by simp
  moreover from assms(2) have nn: "0 \<le> r * 5" by simp
  ultimately have "roundDouble (r * 5) < 5" by (rule roundDouble_below_five [rotated])
  then have "\<lfloor>roundDouble (r * 5)\<rfloor> < 5" by linarith
  moreover have "0 \<le> \<lfloor>roundDouble (r * 5)\<rfloor>"
    using roundDouble_nonneg [OF nn] by simp
  ultimately have "nat \<lfloor>roundDouble (r * 5)\<rfloor> < 5" by (intro bound)
  then show ?thesis by (simp add: randomIndex_def)
qed

lemma randomIndex_ten:
  assumes "isDouble r" and "0 \<le> r" and "r < 1"
  shows "randomIndex r 10 < 10"
proof -
  have bound: "nat z < 10" if "0 \<le> z" "z < 10" for z :: int using that by arith
  from double_below_one [OF assms(1,3)] have "r * 10 \<le> 10 - 10 / 2 ^ 53" by simp
  moreover from assms(2) have nn: "0 \<le> r * 10" by simp
  ultimately have "roundDouble (r * 10) < 10" by (rule roundDouble_below_ten [rotated])
  then have "\<lfloor>roundDouble (r * 10)\<rfloor> < 10" by linarith
  moreover have "0 \<le> \<lfloor>roundDouble (r * 10)\<rfloor>"
    using roundDouble_nonneg [OF nn] by simp
  ultimately have "nat \<lfloor>roundDouble (r * 10)\<rfloor> < 10" by (intro bound)
  then show ?thesis by (simp add: randomIndex_def)
qed

text \<open>
  The double nearest to 0.6 is \<open>5404319552844595 / 2^53\<close>; its product with 5 is just
  below 3 and rounds to 3, as \<open>Math.floor(0.6 * 5)\<close> is 3. A quarter gives index 1.
\<close>

lemma randomIndex_examples:
  "randomIndex (5404319552844595 / 2 ^ 53) 5 = 3"
  "randomIndex (1 / 4) 5 = 1"
  by code_simp+

lemma isDouble_quarter: "isDouble (1 / 4)"
  unfolding isDouble_def
  by (rule exI [of _ 1], rule exI [of _ "- 2"]) (simp add: power_int_minus)


subsection \<open>The matcher\<close>

lemma markdown_detected:
  assumes "toLowerCase (js ''markdown'') = js ''markdown''"
    and "includes_str queryLower (js ''markdown'')"
  shows "js ''markdown'' \<in> set (detectedTopics toLowerCase queryLower)"
proof -
  have "js ''markdown'' \<in> set NOTE_TOPICS" by (simp add: NOTE_TOPICS_def)
  with assms show ?thesis by (simp add: detectedTopics_def)
qed

section \<open>The claims\<close>

text \<open>
  C1. Claimed: in every state reachable from the seeded initial state by \<open>addNote\<close> and
  \<open>deleteNote\<close> calls, \<open>activeNoteId\<close> is \<open>null\<close> with no notes, or the id of a note in
  \<open>notes\<close>. Both actions keep this invariant (\<open>activeValid_run\<close>) and \<open>addNote\<close>
  establishes it (\<open>activeValid_addNote\<close>), but the seeded state itself does not have it:
  \<open>activeNoteId\<close> is taken from a second evaluation of \<open>createDefaultNotes()\<close>, whose ids
  are drawn anew (\<open>seeded_dangling\<close>). Evaluated where the four draws are \<open>a\<close>, \<open>b\<close>, \<open>c\<close>,
  \<open>d\<close>: the notes have ids \<open>a\<close> and \<open>b\<close>, the selection is \<open>c\<close>, the invariant is false after
  no call and still false after deleting note \<open>b\<close>, and \<open>getActiveNote\<close> finds nothing.
\<close>

theorem C1_seeded_state_dangling:
  "activeNoteId (initialState (js ''a'') 0 (js ''b'') 0 (js ''c'') 0 (js ''d'') 0) = Some (js ''c'') \<and>
   map note_id (notes (initialState (js ''a'') 0 (js ''b'') 0 (js ''c'') 0 (js ''d'') 0)) = [(js ''a''), (js ''b'')] \<and>
   \<not> activeValid (run [] (initialState (js ''a'') 0 (js ''b'') 0 (js ''c'') 0 (js ''d'') 0)) \<and>
   \<not> activeValid (run [DeleteNote (js ''b'')] (initialState (js ''a'') 0 (js ''b'') 0 (js ''c'') 0 (js ''d'') 0)) \<and>
   fst (getActiveNote (initialState (js ''a'') 0 (js ''b'') 0 (js ''c'') 0 (js ''d'') 0)) = None"
  by (simp add: initialState_def createDefaultNotes_def activeValid_def deleteNote_def
      getActiveNote_def Let_def js_def)

text \<open>
  C2. \<open>deleteNote(id)\<close> removes the note with that id: the notes left are the others, in
  their order, and none of them has the id. If the id was the active one, \<open>activeNoteId\<close>
  becomes the id of the first note left, or \<open>null\<close> if none is left. Deleting the only
  note leaves no notes and no selection, and \<open>getActiveNote()\<close> then returns nothing.
\<close>

theorem C2_deleteNote:
  "notes (deleteNote i s) = filter (\<lambda>note. note_id note \<noteq> i) (notes s) \<and>
   i \<notin> set (map note_id (notes (deleteNote i s))) \<and>
   (activeNoteId s = Some i \<longrightarrow>
      activeNoteId (deleteNote i s) =
        (case notes (deleteNote i s) of [] \<Rightarrow> None | n # ns \<Rightarrow> Some (note_id n))) \<and>
   (notes s = [n] \<and> note_id n = i \<longrightarrow>
      notes (deleteNote i s) = [] \<and> activeNoteId (deleteNote i s) = None \<and>
      fst (getActiveNote (deleteNote i s)) = None)"
proof -
  have 1: "i \<notin> set (map note_id (notes (deleteNote i s)))"
    by (auto simp: deleteNote_notes)
  have 2: "activeNoteId (deleteNote i s) =
        (case notes (deleteNote i s) of [] \<Rightarrow> None | n # ns \<Rightarrow> Some (note_id n))"
    if "activeNoteId s = Some i"
    using that by (simp add: deleteNote_active deleteNote_notes split: list.split)
  have 3: "notes (deleteNote i s) = [] \<and> activeNoteId (deleteNote i s) = None \<and>
      fst (getActiveNote (deleteNote i s)) = None"
    if "notes s = [n] \<and> note_id n = i"
    using that by (simp add: deleteNote_active deleteNote_notes getActiveNote_def)
  from 1 2 3 show ?thesis by (simp add: deleteNote_notes)
qed

theorem C2_deleteNote_witness:
  "activeNoteId (deleteNote (js ''a'') \<lparr>notes = [exNote ''a'' ''Plan'' ''<p>x</p>'', exNote ''b'' ''Plan'' ''<p>x</p>''], activeNoteId = Some (js ''a'')\<rparr>)
     = Some (js ''b'') \<and>
   map note_id (notes (deleteNote (js ''a'') \<lparr>notes = [exNote ''a'' ''Plan'' ''<p>x</p>'', exNote ''b'' ''Plan'' ''<p>x</p>''], activeNoteId = Some (js ''a'')\<rparr>))
     = [(js ''b'')] \<and>
   notes (deleteNote (js ''b'') \<lparr>notes = [exNote ''b'' ''Plan'' ''<p>x</p>''], activeNoteId = Some (js ''b'')\<rparr>) = [] \<and>
   activeNoteId (deleteNote (js ''b'') \<lparr>notes = [exNote ''b'' ''Plan'' ''<p>x</p>''], activeNoteId = Some (js ''b'')\<rparr>) = None \<and>
   fst (getActiveNote (deleteNote (js ''b'') \<lparr>notes = [exNote ''b'' ''Plan'' ''<p>x</p>''], activeNoteId = Some (js ''b'')\<rparr>)) = None"
  using C2_deleteNote [of "js ''a''" "\<lparr>notes = [exNote ''a'' ''Plan'' ''<p>x</p>'', exNote ''b'' ''Plan'' ''<p>x</p>''], activeNoteId = Some (js ''a'')\<rparr>" "exNote ''a'' ''Plan'' ''<p>x</p>''"]
    C2_deleteNote [of "js ''b''" "\<lparr>notes = [exNote ''b'' ''Plan'' ''<p>x</p>''], activeNoteId = Some (js ''b'')\<rparr>" "exNote ''b'' ''Plan'' ''<p>x</p>''"]
  by (simp add: exNote_def js_def)

text \<open>
  C3. Claimed: \<open>updateNote\<close> changes nothing whenever none of the provided fields differs
  from the note's current value. It does so for title and content
  (\<open>updateNote_unchanged\<close>, \<open>updateNote_same_title_content\<close>), and the comment on the guard
  says the same: only update if data has actually changed. But the guard's third
  disjunct is \<open>data.chatHistory\<close> alone and compares nothing (\<open>updateNote_chatHistory\<close>).
  Evaluated on a note whose chat history is empty and whose \<open>lastUpdated\<close> is 1, with a
  \<open>data\<close> that carries only the same empty chat history and the clock at 2: the state
  changes, the chat history is still empty, and \<open>lastUpdated\<close> is 2.
\<close>

theorem C3_chatHistory_rewrite:
  "chatHistory (exNote ''a'' ''Plan'' ''<p>x</p>'') = Some [] \<and>
   lastUpdated (exNote ''a'' ''Plan'' ''<p>x</p>'') = 1 \<and>
   updateNote 2 (js ''a'') \<lparr>d_title = Absent, d_content = Absent, d_chatHistory = Value [], d_lastUpdated = Absent\<rparr>
       \<lparr>notes = [exNote ''a'' ''Plan'' ''<p>x</p>''], activeNoteId = Some (js ''a'')\<rparr>
     \<noteq> \<lparr>notes = [exNote ''a'' ''Plan'' ''<p>x</p>''], activeNoteId = Some (js ''a'')\<rparr> \<and>
   map chatHistory (notes (updateNote 2 (js ''a'') \<lparr>d_title = Absent, d_content = Absent, d_chatHistory = Value [], d_lastUpdated = Absent\<rparr>
       \<lparr>notes = [exNote ''a'' ''Plan'' ''<p>x</p>''], activeNoteId = Some (js ''a'')\<rparr>)) = [Some []] \<and>
   map lastUpdated (notes (updateNote 2 (js ''a'') \<lparr>d_title = Absent, d_content = Absent, d_chatHistory = Value [], d_lastUpdated = Absent\<rparr>
       \<lparr>notes = [exNote ''a'' ''Plan'' ''<p>x</p>''], activeNoteId = Some (js ''a'')\<rparr>)) = [2]"
  by (simp add: updateNote_def hasChanged_def mergeNote_def exNote_def js_def)

text \<open>
  C4, as claimed: the title defaults to \<open>Untitled Note\<close> whenever the argument is blank,
  and the content is empty. For a title of two spaces, which \<open>trim\<close> reduces to nothing,
  the store keeps the two spaces (only the sidebar trims before it calls), and the
  content of the new note is the string \<open><p></p>\<close>, not the empty string.
\<close>

theorem C4_counterexample:
  "trim (js ''  '') = [] \<and>
   title (last (notes (snd (addNote (js ''n1'') 7 (Some (js ''  ''))
       \<lparr>notes = [exNote ''a'' ''Plan'' ''<p>x</p>''], activeNoteId = Some (js ''a'')\<rparr>))))
     = Some (js ''  '') \<and>
   js ''  '' \<noteq> js ''Untitled Note'' \<and>
   content (last (notes (snd (addNote (js ''n1'') 7 (Some (js ''  ''))
       \<lparr>notes = [exNote ''a'' ''Plan'' ''<p>x</p>''], activeNoteId = Some (js ''a'')\<rparr>))))
     = Some (js ''<p></p>'') \<and>
   js ''<p></p>'' \<noteq> []"
  by (simp add: addNote_def trim_def isWhiteSpace_def js_def)

text \<open>
  C4, amended. \<open>addNote(title?)\<close> has no failing branch. It returns the id it generated,
  makes it the active id, and appends one note with that id, the content \<open><p></p>\<close> (an
  empty paragraph: no text is left once the markup is stripped), an empty chat history
  and the clock value. The note's title is \<open>Untitled Note\<close> when the argument is omitted
  or is the empty string, and the given title otherwise, a title of white space
  included. When the generated id is not already in use, \<open>getActiveNote()\<close> returns the
  new note.
\<close>

theorem C4_addNote:
  "fst (addNote gid now t s) = gid \<and>
   activeNoteId (snd (addNote gid now t s)) = Some gid \<and>
   (\<exists>n. notes (snd (addNote gid now t s)) = notes s @ [n] \<and>
      note_id n = gid \<and>
      content n = Some (js ''<p></p>'') \<and> stripTags (js ''<p></p>'') = [] \<and>
      chatHistory n = Some [] \<and>
      lastUpdated n = now \<and>
      (t = None \<or> t = Some [] \<longrightarrow> title n = Some (js ''Untitled Note'')) \<and>
      (\<forall>x. t = Some x \<and> x \<noteq> [] \<longrightarrow> title n = Some x) \<and>
      (gid \<notin> set (map note_id (notes s)) \<longrightarrow>
         fst (getActiveNote (snd (addNote gid now t s))) = Some n))"
proof -
  have fresh: "find (\<lambda>note. note_id note = gid) (xs @ [n]) = Some n"
    if "gid \<notin> set (map note_id xs)" "note_id n = gid" for xs :: "Note list" and n
    using that by (induction xs) auto
  have strip: "stripTags (js ''<p></p>'') = []" by (simp add: js_def)
  show ?thesis
    using strip by (auto simp: addNote_def Let_def getActiveNote_def fresh split: option.splits)
qed

theorem C4_addNote_witness:
  "title (last (notes (snd (addNote (js ''n1'') 7 None \<lparr>notes = [exNote ''a'' ''Plan'' ''<p>x</p>''], activeNoteId = Some (js ''a'')\<rparr>))))
     = Some (js ''Untitled Note'') \<and>
   title (last (notes (snd (addNote (js ''n1'') 7 (Some []) \<lparr>notes = [exNote ''a'' ''Plan'' ''<p>x</p>''], activeNoteId = Some (js ''a'')\<rparr>))))
     = Some (js ''Untitled Note'') \<and>
   title (last (notes (snd (addNote (js ''n1'') 7 (Some (js ''Ideas'')) \<lparr>notes = [exNote ''a'' ''Plan'' ''<p>x</p>''], activeNoteId = Some (js ''a'')\<rparr>))))
     = Some (js ''Ideas'') \<and>
   fst (getActiveNote (snd (addNote (js ''n1'') 7 (Some (js ''Ideas'')) \<lparr>notes = [exNote ''a'' ''Plan'' ''<p>x</p>''], activeNoteId = Some (js ''a'')\<rparr>)))
     = Some \<lparr>note_id = (js ''n1''), title = Some (js ''Ideas''), content = Some (js ''<p></p>''),
             chatHistory = Some [], lastUpdated = 7\<rparr>"
  using C4_addNote [of "js ''n1''" 7 None "\<lparr>notes = [exNote ''a'' ''Plan'' ''<p>x</p>''], activeNoteId = Some (js ''a'')\<rparr>"]
    C4_addNote [of "js ''n1''" 7 "Some []" "\<lparr>notes = [exNote ''a'' ''Plan'' ''<p>x</p>''], activeNoteId = Some (js ''a'')\<rparr>"]
    C4_addNote [of "js ''n1''" 7 "Some (js ''Ideas'')" "\<lparr>notes = [exNote ''a'' ''Plan'' ''<p>x</p>''], activeNoteId = Some (js ''a'')\<rparr>"]
  by (simp add: exNote_def addNote_def getActiveNote_def js_def)




text \<open>
  C6, as claimed: \<open>deleteNote(id)\<close> with an id that no note has leaves the state unchanged.
  It fails where the absent id is the active one, a state \<open>setActiveNote\<close> reaches since it
  does not check the id: \<open>deleteNote\<close> then moves the selection to the first note.
\<close>

theorem C6_counterexample:
  "(js ''zz'') \<notin> set (map note_id (notes (setActiveNote (js ''zz'')
       \<lparr>notes = [exNote ''a'' ''Plan'' ''<p>x</p>''], activeNoteId = Some (js ''a'')\<rparr>))) \<and>
   deleteNote (js ''zz'') (setActiveNote (js ''zz'')
       \<lparr>notes = [exNote ''a'' ''Plan'' ''<p>x</p>''], activeNoteId = Some (js ''a'')\<rparr>)
     \<noteq> setActiveNote (js ''zz'') \<lparr>notes = [exNote ''a'' ''Plan'' ''<p>x</p>''], activeNoteId = Some (js ''a'')\<rparr> \<and>
   activeNoteId (setActiveNote (js ''zz'')
       \<lparr>notes = [exNote ''a'' ''Plan'' ''<p>x</p>''], activeNoteId = Some (js ''a'')\<rparr>) = Some (js ''zz'') \<and>
   activeNoteId (deleteNote (js ''zz'') (setActiveNote (js ''zz'')
       \<lparr>notes = [exNote ''a'' ''Plan'' ''<p>x</p>''], activeNoteId = Some (js ''a'')\<rparr>)) = Some (js ''a'')"
  by (simp add: deleteNote_def setActiveNote_def exNote_def js_def Let_def)

text \<open>
  C6, amended. For an id that no note has, \<open>updateNote\<close> and \<open>addMessage\<close> leave the state
  unchanged, and \<open>deleteNote\<close> leaves \<open>notes\<close> unchanged; none of the three raises.
  \<open>deleteNote\<close> leaves the whole state unchanged when the selection is valid
  (\<open>null\<close> with no notes, or the id of a note), and in general exactly when the selection
  is \<open>null\<close> with no notes or, with notes, is not the absent id.
\<close>

theorem C6_not_found:
  assumes "i \<notin> set (map note_id (notes s))"
  shows
    "updateNote now i data s = s \<and>
     addMessage gid now1 now2 i text who s = Inr s \<and>
     notes (deleteNote i s) = notes s \<and>
     (activeValid s \<longrightarrow> deleteNote i s = s) \<and>
     (deleteNote i s = s \<longleftrightarrow>
        (if notes s = [] then activeNoteId s = None else activeNoteId s \<noteq> Some i))"
proof -
  have fi: "findIndex (\<lambda>note. note_id note = i) (notes s) = None"
    using assms by (rule findIndex_absent)
  have fl: "filter (\<lambda>note. note_id note \<noteq> i) (notes s) = notes s"
    using assms by (rule filter_absent)
  have 1: "updateNote now i data s = s" by (simp add: updateNote_def fi)
  have 2: "addMessage gid now1 now2 i text who s = Inr s" by (simp add: addMessage_def fi)
  have 3: "notes (deleteNote i s) = notes s" by (simp add: deleteNote_def Let_def fl)
  have 5: "deleteNote i s = s \<longleftrightarrow>
        (if notes s = [] then activeNoteId s = None else activeNoteId s \<noteq> Some i)"
  proof (cases "notes s = []")
    case True
    have "deleteNote i s = \<lparr>notes = [], activeNoteId = None\<rparr>"
      using True by (simp add: deleteNote_def Let_def)
    moreover have "s = \<lparr>notes = [], activeNoteId = None\<rparr> \<longleftrightarrow> activeNoteId s = None"
      using True by (cases s) auto
    ultimately show ?thesis using True by auto
  next
    case nonempty: False
    then have len: "length (notes s) > 0" by simp
    have first: "note_id (notes s ! 0) \<noteq> i"
      using nonempty assms by (cases "notes s") auto
    show ?thesis
    proof (cases "activeNoteId s = Some i")
      case True
      with len have "activeNoteId (deleteNote i s) = Some (note_id (notes s ! 0))"
        by (simp add: deleteNote_def Let_def fl)
      with first True have "activeNoteId (deleteNote i s) \<noteq> activeNoteId s" by simp
      then have "deleteNote i s \<noteq> s" by auto
      with True nonempty show ?thesis by simp
    next
      case False
      with len have "deleteNote i s = \<lparr>notes = notes s, activeNoteId = activeNoteId s\<rparr>"
        by (simp add: deleteNote_def Let_def fl)
      then have "deleteNote i s = s" by simp
      with False nonempty show ?thesis by simp
    qed
  qed
  have 4: "activeValid s \<longrightarrow> deleteNote i s = s"
  proof
    assume "activeValid s"
    with assms have "if notes s = [] then activeNoteId s = None else activeNoteId s \<noteq> Some i"
      by (auto simp: activeValid_def split: option.splits)
    with 5 show "deleteNote i s = s" by simp
  qed
  show ?thesis by (intro conjI) (fact 1, fact 2, fact 3, fact 4, fact 5)
qed

theorem C6_not_found_witness:
  "updateNote 2 (js ''zz'') \<lparr>d_title = Value (js ''New''), d_content = Absent, d_chatHistory = Absent, d_lastUpdated = Absent\<rparr>
       \<lparr>notes = [exNote ''a'' ''Plan'' ''<p>x</p>''], activeNoteId = Some (js ''a'')\<rparr>
     = \<lparr>notes = [exNote ''a'' ''Plan'' ''<p>x</p>''], activeNoteId = Some (js ''a'')\<rparr> \<and>
   addMessage (js ''m1'') 2 3 (js ''zz'') (js ''hello'') User
       \<lparr>notes = [exNote ''a'' ''Plan'' ''<p>x</p>''], activeNoteId = Some (js ''a'')\<rparr>
     = Inr \<lparr>notes = [exNote ''a'' ''Plan'' ''<p>x</p>''], activeNoteId = Some (js ''a'')\<rparr> \<and>
   deleteNote (js ''zz'') \<lparr>notes = [exNote ''a'' ''Plan'' ''<p>x</p>''], activeNoteId = Some (js ''a'')\<rparr>
     = \<lparr>notes = [exNote ''a'' ''Plan'' ''<p>x</p>''], activeNoteId = Some (js ''a'')\<rparr>"
  using C6_not_found [of "js ''zz''" "\<lparr>notes = [exNote ''a'' ''Plan'' ''<p>x</p>''], activeNoteId = Some (js ''a'')\<rparr>"
      2 "\<lparr>d_title = Value (js ''New''), d_content = Absent, d_chatHistory = Absent, d_lastUpdated = Absent\<rparr>"
      "js ''m1''" 2 3 "js ''hello''" User]
  by (simp add: exNote_def js_def activeValid_def)

text \<open>
  C8. For every utterance whose lower-case form contains \<open>markdown\<close> and none of \<open>?\<close>,
  \<open>how\<close>, \<open>what\<close>, the topic scan answers with the markdown notice and the matcher
  returns it, whatever other topic keywords the utterance has, whatever the earlier
  messages and the random draw are: no later rule is reached. The notice is not the reply
  of the markdown branch of the feature questions. The topic list is lower-cased by the
  code too; all that is used of \<open>toLowerCase\<close> is that it leaves the topic \<open>markdown\<close>, a
  word of lower-case ASCII letters, as it is.
\<close>

theorem C8_markdown_notice:
  assumes "toLowerCase (js ''markdown'') = js ''markdown''"
    and "includes_str (toLowerCase query) (js ''markdown'')"
    and "\<not> includes_str (toLowerCase query) (js ''?'')"
    and "\<not> includes_str (toLowerCase query) (js ''how'')"
    and "\<not> includes_str (toLowerCase query) (js ''what'')"
  shows "topicScan toLowerCase (toLowerCase query) = Some markdownNotice \<and>
         generateIntelligentResponse toLowerCase query context r = markdownNotice \<and>
         markdownNotice \<noteq> markdownReply"
proof -
  let ?topics = "detectedTopics toLowerCase (toLowerCase query)"
  have m: "js ''markdown'' \<in> set ?topics"
    using assms(1,2) by (rule markdown_detected)
  then have "?topics \<noteq> []" by auto
  then have len: "length ?topics > 0" by simp
  have scan: "topicScan toLowerCase (toLowerCase query) = Some markdownNotice"
    unfolding topicScan_def Let_def using m len assms(3-5) by simp
  have diff: "markdownNotice \<noteq> markdownReply"
    by (simp add: markdownNotice_def markdownReply_def js_def)
  from scan have "generateIntelligentResponse toLowerCase query context r = markdownNotice"
    by (simp add: generateIntelligentResponse_def Let_def)
  with scan diff show ?thesis by simp
qed

theorem C8_markdown_notice_witness:
  "generateIntelligentResponse asciiLowerCase (js ''Bold Markdown shortcuts, please'')
       [js ''earlier message''] (1 / 2)
     = markdownNotice \<and>
   generateIntelligentResponse asciiLowerCase (js ''markdown'') [] 0 = markdownNotice"
  using C8_markdown_notice [of asciiLowerCase "js ''Bold Markdown shortcuts, please''"
      "[js ''earlier message'']" "1 / 2"]
    C8_markdown_notice [of asciiLowerCase "js ''markdown''" "[]" 0]
  by (simp add: asciiLowerCase_def js_def)

text \<open>
  C9. For every utterance on which none of the rules before the context rule answers, and
  with no earlier messages, the matcher returns one of the five default replies, for
  every draw of the random source: every double \<open>r\<close> with \<open>0 \<le> r < 1\<close>. Four of the five
  do not depend on the utterance; the second is the echo, which contains the first 30
  code units of the utterance as typed, not lower-cased. This holds whatever the case
  mapping \<open>toLowerCase\<close> is.
\<close>

theorem C9_fallback:
  assumes "isDouble r" and "0 \<le> r" and "r < 1"
    and "topicScan toLowerCase (toLowerCase query) = None"
    and "greeting (toLowerCase query) = None"
    and "gratitude (toLowerCase query) = None"
    and "featureQuestion (toLowerCase query) r = None"
    and "templateRequest (toLowerCase query) = None"
    and "genericHelp (toLowerCase query) = None"
  shows "generateIntelligentResponse toLowerCase query [] r \<in> set (thoughtfulResponses query) \<and>
         length (thoughtfulResponses query) = 5 \<and>
         (\<forall>k. k < 5 \<and> k \<noteq> 1 \<longrightarrow> thoughtfulResponses query ! k = thoughtfulResponses [] ! k) \<and>
         thoughtfulResponses query ! 1 =
           js ''I understand you're asking about '' @ take 30 query @
           js ''... Could you tell me more about what you're trying to achieve so I can provide more targeted assistance?'' \<and>
         includes_str (thoughtfulResponses query ! 1) (take 30 query)"
proof -
  have len: "length (thoughtfulResponses query) = 5"
    by (simp add: thoughtfulResponses_def)
  have ctx: "contextual toLowerCase [] r = None" by (simp add: contextual_def)
  have res: "generateIntelligentResponse toLowerCase query [] r =
      thoughtfulResponses query ! randomIndex r (length (thoughtfulResponses query))"
    using assms(4-9) ctx by (simp add: generateIntelligentResponse_def Let_def)
  have "randomIndex r 5 < 5" using assms(1-3) by (rule randomIndex_five)
  then have "randomIndex r (length (thoughtfulResponses query)) < length (thoughtfulResponses query)"
    by (simp only: len)
  then have mem: "generateIntelligentResponse toLowerCase query [] r \<in> set (thoughtfulResponses query)"
    unfolding res by (rule nth_mem)
  have fixed: "\<forall>k. k < 5 \<and> k \<noteq> 1 \<longrightarrow> thoughtfulResponses query ! k = thoughtfulResponses [] ! k"
  proof (intro allI impI)
    fix k :: nat
    assume "k < 5 \<and> k \<noteq> 1"
    then have "k = 0 \<or> k = 2 \<or> k = 3 \<or> k = 4" by arith
    then show "thoughtfulResponses query ! k = thoughtfulResponses [] ! k"
      by (auto simp: thoughtfulResponses_def)
  qed
  have echo: "thoughtfulResponses query ! 1 =
           js ''I understand you're asking about '' @ take 30 query @
           js ''... Could you tell me more about what you're trying to achieve so I can provide more targeted assistance?''"
    by (simp add: thoughtfulResponses_def)
  have inc: "includes_str (thoughtfulResponses query ! 1) (take 30 query)"
    unfolding echo includes_str_iff by blast
  show ?thesis by (intro conjI) (fact mem, fact len, fact fixed, fact echo, fact inc)
qed

theorem C9_fallback_witness:
  "generateIntelligentResponse asciiLowerCase
       (js ''Please summarize my shopping errands for tomorrow'') [] (1 / 4)
     \<in> set (thoughtfulResponses (js ''Please summarize my shopping errands for tomorrow'')) \<and>
   thoughtfulResponses (js ''Please summarize my shopping errands for tomorrow'') ! 1 =
     js ''I understand you're asking about Please summarize my shopping e... Could you tell me more about what you're trying to achieve so I can provide more targeted assistance?'' \<and>
   includes_str (thoughtfulResponses (js ''Please summarize my shopping errands for tomorrow'') ! 1)
     (js ''Please summarize my shopping e'')"
proof -
  let ?q = "js ''Please summarize my shopping errands for tomorrow''"
  have r: "isDouble (1 / 4)" "(0::real) \<le> 1 / 4" "(1::real) / 4 < 1"
    by (simp_all add: isDouble_quarter)
  have 1: "topicScan asciiLowerCase (asciiLowerCase ?q) = None" by code_simp
  have 2: "greeting (asciiLowerCase ?q) = None" by code_simp
  have 3: "gratitude (asciiLowerCase ?q) = None" by code_simp
  have 4: "featureQuestion (asciiLowerCase ?q) (1 / 4) = None" by code_simp
  have 5: "templateRequest (asciiLowerCase ?q) = None" by code_simp
  have 6: "genericHelp (asciiLowerCase ?q) = None" by code_simp
  from C9_fallback [OF r 1 2 3 4 5 6] show ?thesis by (simp add: js_def)
qed

text \<open>
  C10. \<open>getActiveNote()\<close> is a total read: it leaves the state as it was, and it returns
  nothing when \<open>activeNoteId\<close> is \<open>null\<close> and when it is an id that no note has.
  \<open>setActiveNote(id)\<close> assigns the id without looking at \<open>notes\<close>, so for an id that no
  note has it reaches such a state, where \<open>getActiveNote()\<close> returns nothing.
\<close>

theorem C10_getActiveNote:
  "snd (getActiveNote s) = s \<and>
   (activeNoteId s = None \<longrightarrow> fst (getActiveNote s) = None) \<and>
   (activeNoteId s = Some a \<and> a \<notin> set (map note_id (notes s)) \<longrightarrow> fst (getActiveNote s) = None) \<and>
   activeNoteId (setActiveNote i s) = Some i \<and>
   notes (setActiveNote i s) = notes s \<and>
   (i \<notin> set (map note_id (notes s)) \<longrightarrow>
      getActiveNote (setActiveNote i s) = (None, setActiveNote i s))"
  by (auto simp: getActiveNote_def setActiveNote_def find_None_iff)

theorem C10_getActiveNote_witness:
  "fst (getActiveNote \<lparr>notes = [exNote ''a'' ''Plan'' ''<p>x</p>''], activeNoteId = None\<rparr>) = None \<and>
   fst (getActiveNote \<lparr>notes = [exNote ''a'' ''Plan'' ''<p>x</p>''], activeNoteId = Some (js ''zz'')\<rparr>) = None \<and>
   getActiveNote (setActiveNote (js ''zz'') \<lparr>notes = [exNote ''a'' ''Plan'' ''<p>x</p>''], activeNoteId = Some (js ''a'')\<rparr>)
     = (None, \<lparr>notes = [exNote ''a'' ''Plan'' ''<p>x</p>''], activeNoteId = Some (js ''zz'')\<rparr>)"
  using C10_getActiveNote [of "\<lparr>notes = [exNote ''a'' ''Plan'' ''<p>x</p>''], activeNoteId = None\<rparr>" "js ''zz''" "js ''zz''"]
    C10_getActiveNote [of "\<lparr>notes = [exNote ''a'' ''Plan'' ''<p>x</p>''], activeNoteId = Some (js ''zz'')\<rparr>" "js ''zz''" "js ''zz''"]
    C10_getActiveNote [of "\<lparr>notes = [exNote ''a'' ''Plan'' ''<p>x</p>''], activeNoteId = Some (js ''a'')\<rparr>" "js ''zz''" "js ''zz''"]
  by (simp add: exNote_def js_def setActiveNote_def)

end
